theory Spec2Isabelle
  imports Complex_Main "HOL-Library.Word" "HOL-Library.AList" "HOL-Library.Char_ord"
    "HOL-Library.List_Lexorder"
begin

section \<open>Go values used by the observation client\<close>

text \<open>
  A Go \<^verbatim>\<open>float64\<close> is either a finite number or one of the three special values.
  Finite values are represented by the rational number they denote; negative zero is
  identified with zero.
\<close>

datatype float64 = Finite rat | PosInf | NegInf | NaN

type_synonym int32 = "32 word"
type_synonym int64 = "64 word"

record Location =
  Longitude :: float64
  Latitude :: float64

record Rectangle =
  Southwest :: Location
  Northeast :: Location

subsection \<open>Standard-library routines taken as parameters\<close>

text \<open>
  The client calls into Go's standard library for the textual form of floating-point
  numbers and of timestamps and for the validation of request URLs. Those routines are not
  part of the repository; they are the fields of a record that every operation receives.
  The type variable \<open>'t\<close> stands for \<^verbatim>\<open>time.Time\<close>.
\<close>

record 't golib =
  Sprintf_v :: "float64 \<Rightarrow> string"
  Format_RFC3339 :: "'t \<Rightarrow> string"
  Format_date :: "'t \<Rightarrow> string"
  Time_MarshalJSON :: "'t \<Rightarrow> string option"
  Time_UnmarshalJSON :: "string \<Rightarrow> 't option"
  Time_zero :: "'t"
  ParseFloat :: "string \<Rightarrow> float64 option"
  url_Parse_ok :: "string \<Rightarrow> bool"

subsection \<open>\<^verbatim>\<open>strconv.Itoa\<close>\<close>

fun formatDecimal :: "nat \<Rightarrow> string" where
  "formatDecimal n =
     (if n < 10 then [''0123456789'' ! n]
      else formatDecimal (n div 10) @ [''0123456789'' ! (n mod 10)])"

declare formatDecimal.simps [simp del]

definition Itoa :: "int \<Rightarrow> string" where
  "Itoa i = (if i < 0 then CHR ''-'' # formatDecimal (nat (- i)) else formatDecimal (nat i))"

subsection \<open>\<^verbatim>\<open>url.Values\<close>\<close>

text \<open>
  \<^verbatim>\<open>url.Values\<close> is a \<^verbatim>\<open>map[string][]string\<close>. It is an association list with one entry
  per key; \<^verbatim>\<open>Set\<close> replaces the values of a key by a single value.
\<close>

type_synonym Values = "(string \<times> string list) list"

definition Set :: "Values \<Rightarrow> string \<Rightarrow> string \<Rightarrow> Values" where
  "Set v key val = AList.update key [val] v"

definition shouldEscape :: "char \<Rightarrow> bool" where
  \<comment> \<open>\<^verbatim>\<open>shouldEscape(c, encodeQueryComponent)\<close>: only letters, digits and \<^verbatim>\<open>- _ . ~\<close> stay.\<close>
  "shouldEscape c =
     (let n = (of_char c :: nat) in
      if (97 \<le> n \<and> n \<le> 122) \<or> (65 \<le> n \<and> n \<le> 90) \<or> (48 \<le> n \<and> n \<le> 57) then False
      else if c = CHR ''-'' \<or> c = CHR ''_'' \<or> c = CHR ''.'' \<or> c = CHR ''~'' then False
      else True)"

definition escapeByte :: "char \<Rightarrow> string" where
  "escapeByte c =
     (if c = CHR '' '' then ''+''
      else if shouldEscape c then
        [CHR ''%'', ''0123456789ABCDEF'' ! ((of_char c :: nat) div 16),
         ''0123456789ABCDEF'' ! ((of_char c :: nat) mod 16)]
      else [c])"

definition QueryEscape :: "string \<Rightarrow> string" where
  "QueryEscape s = concat (map escapeByte s)"

fun join :: "string \<Rightarrow> string list \<Rightarrow> string" where
  "join sep [] = []"
| "join sep [x] = x"
| "join sep (x # y # ys) = x @ sep @ join sep (y # ys)"

definition encodePairs :: "string \<times> string list \<Rightarrow> string list" where
  "encodePairs kv = map (\<lambda>x. QueryEscape (fst kv) @ ''='' @ QueryEscape x) (snd kv)"

definition query_pairs :: "Values \<Rightarrow> string list" where
  \<comment> \<open>keys in sorted order, each value of a key as \<^verbatim>\<open>key=value\<close>, both escaped\<close>
  "query_pairs v = concat (map encodePairs (sort_key fst v))"

definition Encode :: "Values \<Rightarrow> string" where
  \<comment> \<open>the pairs joined by \<^verbatim>\<open>&\<close>; the empty string when there is none\<close>
  "Encode v = join ''&'' (query_pairs v)"

section \<open>Listing observations: the query builder\<close>

record 't GetObservationsOpt =
  PerPage :: "int option"
  Page :: "int option"
  Rectangle :: "Rectangle option"
  On :: "'t option"
  UpdatedSince :: "'t option"
  OrderBy :: "string option"
  OrderAscending :: "bool option"
  HasGeo :: "bool option"

text \<open>
  Lines 127 to 161 of \<^verbatim>\<open>GetObservations\<close>: one function for each \<^verbatim>\<open>if\<close> statement, each
  taking the values built so far and returning them updated, applied in the order of the
  source.
\<close>

definition set_page :: "'t GetObservationsOpt \<Rightarrow> Values \<Rightarrow> Values" where
  "set_page opt v = (case Page opt of None \<Rightarrow> v | Some p \<Rightarrow> Set v ''page'' (Itoa p))"

definition set_per_page :: "'t GetObservationsOpt \<Rightarrow> Values \<Rightarrow> Values" where
  "set_per_page opt v = (case PerPage opt of None \<Rightarrow> v | Some p \<Rightarrow> Set v ''per_page'' (Itoa p))"

definition set_rectangle :: "'t golib \<Rightarrow> 't GetObservationsOpt \<Rightarrow> Values \<Rightarrow> Values" where
  "set_rectangle lib opt v =
     (case Rectangle opt of None \<Rightarrow> v
      | Some r \<Rightarrow>
          Set (Set (Set (Set v
            ''swlng'' (Sprintf_v lib (Longitude (Southwest r))))
            ''swlat'' (Sprintf_v lib (Latitude (Southwest r))))
            ''nelng'' (Sprintf_v lib (Longitude (Northeast r))))
            ''nelat'' (Sprintf_v lib (Latitude (Northeast r))))"

definition set_order_by :: "'t GetObservationsOpt \<Rightarrow> Values \<Rightarrow> Values" where
  "set_order_by opt v =
     (case OrderBy opt of None \<Rightarrow> v
      | Some ob \<Rightarrow>
          (case OrderAscending opt of
             None \<Rightarrow> Set (Set v ''order_by'' ob) ''order'' ''desc''
           | Some _ \<Rightarrow> Set v ''order_by'' ob))"

definition set_order :: "'t GetObservationsOpt \<Rightarrow> Values \<Rightarrow> Values" where
  "set_order opt v =
     (case OrderAscending opt of None \<Rightarrow> v
      | Some asc \<Rightarrow> if asc then Set v ''order'' ''asc'' else Set v ''order'' ''desc'')"

definition set_updated_since :: "'t golib \<Rightarrow> 't GetObservationsOpt \<Rightarrow> Values \<Rightarrow> Values" where
  "set_updated_since lib opt v =
     (case UpdatedSince opt of None \<Rightarrow> v
      | Some t \<Rightarrow> Set v ''updated_since'' (Format_RFC3339 lib t))"

definition set_has_geo :: "'t GetObservationsOpt \<Rightarrow> Values \<Rightarrow> Values" where
  "set_has_geo opt v = (case HasGeo opt of None \<Rightarrow> v | Some _ \<Rightarrow> Set v ''has[]'' ''geo'')"

definition set_on :: "'t golib \<Rightarrow> 't GetObservationsOpt \<Rightarrow> Values \<Rightarrow> Values" where
  "set_on lib opt v = (case On opt of None \<Rightarrow> v | Some t \<Rightarrow> Set v ''on'' (Format_date lib t))"

definition GetObservations_values :: "'t golib \<Rightarrow> 't GetObservationsOpt \<Rightarrow> Values" where
  "GetObservations_values lib opt =
     set_on lib opt
       (set_has_geo opt
         (set_updated_since lib opt
           (set_order opt
             (set_order_by opt
               (set_rectangle lib opt
                 (set_per_page opt
                   (set_page opt [])))))))"

section \<open>JSON documents, errors, requests\<close>

text \<open>
  A request or response body is represented by the JSON document it holds. Besides the
  errors the operations return, the two run-time panics the source can raise are values of
  the error type.
\<close>

datatype json =
  JNull | JBool bool | JNum rat | JStr string | JArr "json list" | JObj "(string \<times> json) list"

datatype error =
  TransportError string
  | UnexpectedStatusError int
  | DecodeError
  | EncodeError
  | RequestError
  | PanicIndexOutOfRange
  | PanicNilDereference

record request =
  req_method :: string
  req_url :: string
  req_body :: "json option"

text \<open>The body of a response is \<open>None\<close> when its bytes are not a JSON document.\<close>

record response =
  status :: int
  body :: "json option"

section \<open>The client\<close>

text \<open>
  The client holds the provider's base address and the HTTP transport, which answers a
  request with a response or with a transport failure.
\<close>

record Client =
  rootUrl :: string
  httpDo :: "request \<Rightarrow> string + response"

text \<open>
  Modelled from the spec: \<^verbatim>\<open>buildUrl\<close> is a method of the client that is not in the
  source file. The spec's base-path builder resolves a relative endpoint against the
  configured provider base address. The callers format the path (\<^verbatim>\<open>%d\<close> of an id) before
  it is appended.
\<close>

definition buildUrl :: "Client \<Rightarrow> string \<Rightarrow> string" where
  "buildUrl c path = rootUrl c @ path"

text \<open>
  Lines 125 to 165 of \<^verbatim>\<open>GetObservations\<close>: the URL handed to \<^verbatim>\<open>c.get\<close>. The options
  are a pointer and may be \<^verbatim>\<open>nil\<close>.
\<close>

definition GetObservations_url ::
  "'t golib \<Rightarrow> Client \<Rightarrow> 't GetObservationsOpt option \<Rightarrow> string" where
  "GetObservations_url lib c opt =
     (let u = buildUrl c ''/observations.json'' in
      case opt of None \<Rightarrow> u
      | Some opt \<Rightarrow>
          (let params = Encode (GetObservations_values lib opt)
           in if params \<noteq> [] then u @ ''?'' @ params else u))"

section \<open>Encoding request bodies\<close>

definition marshalFloat :: "float64 \<Rightarrow> error + json" where
  \<comment> \<open>\<^verbatim>\<open>encoding/json\<close> refuses infinities and NaN\<close>
  "marshalFloat f = (case f of Finite r \<Rightarrow> Inr (JNum r) | _ \<Rightarrow> Inl EncodeError)"

definition marshalTime :: "'t golib \<Rightarrow> 't \<Rightarrow> error + json" where
  "marshalTime lib t =
     (case Time_MarshalJSON lib t of None \<Rightarrow> Inl EncodeError | Some s \<Rightarrow> Inr (JStr s))"

definition marshalInt32 :: "int32 \<Rightarrow> json" where
  "marshalInt32 w = JNum (of_int (sint w))"

subsection \<open>Create options\<close>

text \<open>
  The tag of \<^verbatim>\<open>ObservedOnString\<close> is \<^verbatim>\<open>observed_on_string,omit_empty\<close>. The encoder has
  no option \<^verbatim>\<open>omit_empty\<close> and ignores it, so the field is encoded like the others. A
  \<^verbatim>\<open>nil\<close> options pointer is encoded as \<^verbatim>\<open>null\<close>.
\<close>

record 't AddObservationOpt =
  add_SpeciesGuess :: string
  add_ObservedOnString :: 't
  add_Description :: string
  add_Latitude :: float64
  add_Longitude :: float64
  add_PositionalAccuracy :: int32
  add_Tags :: string
  add_GeoPrivacy :: string

definition Marshal_AddObservationOpt ::
  "'t golib \<Rightarrow> 't AddObservationOpt option \<Rightarrow> error + json" where
  "Marshal_AddObservationOpt lib opt =
     (case opt of None \<Rightarrow> Inr JNull
      | Some a \<Rightarrow>
         (case marshalTime lib (add_ObservedOnString a) of Inl e \<Rightarrow> Inl e
          | Inr observed \<Rightarrow>
         (case marshalFloat (add_Latitude a) of Inl e \<Rightarrow> Inl e
          | Inr lat \<Rightarrow>
         (case marshalFloat (add_Longitude a) of Inl e \<Rightarrow> Inl e
          | Inr lng \<Rightarrow>
             Inr (JObj
               [(''species_guess'', JStr (add_SpeciesGuess a)),
                (''observed_on_string'', observed),
                (''description'', JStr (add_Description a)),
                (''latitude'', lat),
                (''longitude'', lng),
                (''positional_accuracy'', marshalInt32 (add_PositionalAccuracy a)),
                (''tag_list'', JStr (add_Tags a)),
                (''geoprivacy'', JStr (add_GeoPrivacy a))])))))"

subsection \<open>Update options\<close>

text \<open>
  Every field but \<^verbatim>\<open>Id\<close> carries \<^verbatim>\<open>omitempty\<close>: the encoder leaves out an empty string, a
  number equal to zero and a \<^verbatim>\<open>nil\<close> pointer. \<^verbatim>\<open>Id\<close> is tagged \<^verbatim>\<open>-\<close> and is never encoded.
\<close>

record 't UpdateObservationOpt =
  upd_Id :: int64
  upd_SpeciesGuess :: string
  upd_ObservedOnString :: "'t option"
  upd_Description :: string
  upd_Latitude :: float64
  upd_Longitude :: float64
  upd_PositionalAccuracy :: int32
  upd_Tags :: string
  upd_GeoPrivacy :: string

definition omitemptyString :: "string \<Rightarrow> string \<Rightarrow> (string \<times> json) list" where
  "omitemptyString key s = (if s = [] then [] else [(key, JStr s)])"

definition omitemptyFloat :: "string \<Rightarrow> float64 \<Rightarrow> error + (string \<times> json) list" where
  "omitemptyFloat key f =
     (if f = Finite 0 then Inr []
      else (case marshalFloat f of Inl e \<Rightarrow> Inl e | Inr j \<Rightarrow> Inr [(key, j)]))"

definition omitemptyInt32 :: "string \<Rightarrow> int32 \<Rightarrow> (string \<times> json) list" where
  "omitemptyInt32 key w = (if w = 0 then [] else [(key, marshalInt32 w)])"

definition omitemptyTime :: "'t golib \<Rightarrow> string \<Rightarrow> 't option \<Rightarrow> error + (string \<times> json) list" where
  "omitemptyTime lib key p =
     (case p of None \<Rightarrow> Inr []
      | Some t \<Rightarrow> (case marshalTime lib t of Inl e \<Rightarrow> Inl e | Inr j \<Rightarrow> Inr [(key, j)]))"

definition fields_UpdateObservationOpt ::
  "'t golib \<Rightarrow> 't UpdateObservationOpt \<Rightarrow> error + (string \<times> json) list" where
  "fields_UpdateObservationOpt lib u =
     (case omitemptyTime lib ''observed_on_string'' (upd_ObservedOnString u) of Inl e \<Rightarrow> Inl e
      | Inr observed \<Rightarrow>
     (case omitemptyFloat ''latitude'' (upd_Latitude u) of Inl e \<Rightarrow> Inl e
      | Inr lat \<Rightarrow>
     (case omitemptyFloat ''longitude'' (upd_Longitude u) of Inl e \<Rightarrow> Inl e
      | Inr lng \<Rightarrow>
         Inr (omitemptyString ''species_guess'' (upd_SpeciesGuess u)
              @ observed
              @ omitemptyString ''description'' (upd_Description u)
              @ lat
              @ lng
              @ omitemptyInt32 ''positional_accuracy'' (upd_PositionalAccuracy u)
              @ omitemptyString ''tag_list'' (upd_Tags u)
              @ omitemptyString ''geoprivacy'' (upd_GeoPrivacy u)))))"

definition Marshal_UpdateObservationOpt ::
  "'t golib \<Rightarrow> 't UpdateObservationOpt \<Rightarrow> error + json" where
  "Marshal_UpdateObservationOpt lib u =
     (case fields_UpdateObservationOpt lib u of Inl e \<Rightarrow> Inl e | Inr kvs \<Rightarrow> Inr (JObj kvs))"

section \<open>Decoding a summary observation\<close>

record 't SimpleObservation =
  obs_Id :: int64
  obs_UserLogin :: string
  obs_PlaceGuess :: string
  obs_SpeciesGuess :: string
  obs_Latitude :: float64
  obs_Longitude :: float64
  obs_CreatedAt :: 't
  obs_ObservedOn :: string
  obs_ObservedOnString :: string
  obs_UpdatedAt :: 't
  obs_TaxonId :: int32
  obs_UserId :: int64
  obs_SiteId :: int64
  obs_TimeZone :: string
  obs_Description :: string
  obs_Uri :: string
  obs_Uuid :: string
  obs_TimeObservedAtUtc :: 't
  obs_PositionalAccuracy :: int32
  obs_PublicPositionalAccuracy :: int32

definition bind_err :: "error + 'a \<Rightarrow> ('a \<Rightarrow> error + 'b) \<Rightarrow> error + 'b" where
  "bind_err m f = (case m of Inl e \<Rightarrow> Inl e | Inr x \<Rightarrow> f x)"

text \<open>
  Modelled from the spec: the decoders of the single fields, used by the decoder of the
  whole record below. A member is looked up under the key of the field's tag and decoded
  by the field's declared type; a value of another shape is a DecodeError.
\<close>

definition member_of :: "(string \<times> json) list \<Rightarrow> string \<Rightarrow> json" where
  \<comment> \<open>a key the object lacks leaves the field at its zero value, as \<^verbatim>\<open>null\<close> does\<close>
  "member_of kvs key = (case map_of kvs key of None \<Rightarrow> JNull | Some j \<Rightarrow> j)"

definition decodeString :: "json \<Rightarrow> error + string" where
  "decodeString j = (case j of JNull \<Rightarrow> Inr [] | JStr s \<Rightarrow> Inr s | _ \<Rightarrow> Inl DecodeError)"

definition decodeInt64 :: "json \<Rightarrow> error + int64" where
  "decodeInt64 j =
     (case j of JNull \<Rightarrow> Inr 0
      | JNum r \<Rightarrow>
          if of_int \<lfloor>r\<rfloor> = r \<and> - (2 ^ 63) \<le> \<lfloor>r\<rfloor> \<and> \<lfloor>r\<rfloor> < 2 ^ 63
          then Inr (word_of_int \<lfloor>r\<rfloor>) else Inl DecodeError
      | _ \<Rightarrow> Inl DecodeError)"

definition decodeInt32 :: "json \<Rightarrow> error + int32" where
  "decodeInt32 j =
     (case j of JNull \<Rightarrow> Inr 0
      | JNum r \<Rightarrow>
          if of_int \<lfloor>r\<rfloor> = r \<and> - (2 ^ 31) \<le> \<lfloor>r\<rfloor> \<and> \<lfloor>r\<rfloor> < 2 ^ 31
          then Inr (word_of_int \<lfloor>r\<rfloor>) else Inl DecodeError
      | _ \<Rightarrow> Inl DecodeError)"

definition decodeTime :: "'t golib \<Rightarrow> json \<Rightarrow> error + 't" where
  "decodeTime lib j =
     (case j of JNull \<Rightarrow> Inr (Time_zero lib)
      | JStr s \<Rightarrow>
          (case Time_UnmarshalJSON lib s of None \<Rightarrow> Inl DecodeError | Some t \<Rightarrow> Inr t)
      | _ \<Rightarrow> Inl DecodeError)"

text \<open>
  Modelled from the spec: the decoder is run by \<^verbatim>\<open>c.get\<close> and \<^verbatim>\<open>c.execute\<close>, which are not
  in the source file; the source declares the field with the tag \<^verbatim>\<open>latitude,string\<close>. The
  spec: latitude and longitude are received as numeric-valued strings, not JSON numbers;
  decode must parse such strings to floating point and fail with a DecodeError if the
  string is not numeric. The parse itself is the library's \<^verbatim>\<open>ParseFloat\<close>.
\<close>

definition decodeFloatString :: "'t golib \<Rightarrow> json \<Rightarrow> error + float64" where
  "decodeFloatString lib j =
     (case j of JNull \<Rightarrow> Inr (Finite 0)
      | JStr s \<Rightarrow> (case ParseFloat lib s of None \<Rightarrow> Inl DecodeError | Some f \<Rightarrow> Inr f)
      | _ \<Rightarrow> Inl DecodeError)"

text \<open>
  Modelled from the spec: decoding a response body into \<^verbatim>\<open>SimpleObservation\<close>, field by
  field under the key of each field's tag and by the field's declared type. A body that
  does not have the expected shape is a DecodeError.
\<close>

definition decode_SimpleObservation :: "'t golib \<Rightarrow> json \<Rightarrow> error + 't SimpleObservation" where
  "decode_SimpleObservation lib j =
     (case j of
        JObj kvs \<Rightarrow>
          bind_err (decodeInt64 (member_of kvs ''id'')) (\<lambda>v_id.
          bind_err (decodeString (member_of kvs ''user_login'')) (\<lambda>v_user_login.
          bind_err (decodeString (member_of kvs ''place_guess'')) (\<lambda>v_place_guess.
          bind_err (decodeString (member_of kvs ''species_guess'')) (\<lambda>v_species_guess.
          bind_err (decodeFloatString lib (member_of kvs ''latitude'')) (\<lambda>v_latitude.
          bind_err (decodeFloatString lib (member_of kvs ''longitude'')) (\<lambda>v_longitude.
          bind_err (decodeTime lib (member_of kvs ''created_at_utc'')) (\<lambda>v_created_at.
          bind_err (decodeString (member_of kvs ''observed_on'')) (\<lambda>v_observed_on.
          bind_err (decodeString (member_of kvs ''observed_on_string'')) (\<lambda>v_observed_on_string.
          bind_err (decodeTime lib (member_of kvs ''updated_at_utc'')) (\<lambda>v_updated_at.
          bind_err (decodeInt32 (member_of kvs ''taxon_id'')) (\<lambda>v_taxon_id.
          bind_err (decodeInt64 (member_of kvs ''user_id'')) (\<lambda>v_user_id.
          bind_err (decodeInt64 (member_of kvs ''site_id'')) (\<lambda>v_site_id.
          bind_err (decodeString (member_of kvs ''time_zone'')) (\<lambda>v_time_zone.
          bind_err (decodeString (member_of kvs ''description'')) (\<lambda>v_description.
          bind_err (decodeString (member_of kvs ''uri'')) (\<lambda>v_uri.
          bind_err (decodeString (member_of kvs ''uuid'')) (\<lambda>v_uuid.
          bind_err (decodeTime lib (member_of kvs ''time_observed_at_utc'')) (\<lambda>v_time_observed.
          bind_err (decodeInt32 (member_of kvs ''positional_accuracy'')) (\<lambda>v_accuracy.
          bind_err (decodeInt32 (member_of kvs ''public_positional_accuracy'')) (\<lambda>v_public_accuracy.
            Inr \<lparr>obs_Id = v_id, obs_UserLogin = v_user_login, obs_PlaceGuess = v_place_guess,
                 obs_SpeciesGuess = v_species_guess, obs_Latitude = v_latitude,
                 obs_Longitude = v_longitude, obs_CreatedAt = v_created_at,
                 obs_ObservedOn = v_observed_on, obs_ObservedOnString = v_observed_on_string,
                 obs_UpdatedAt = v_updated_at, obs_TaxonId = v_taxon_id, obs_UserId = v_user_id,
                 obs_SiteId = v_site_id, obs_TimeZone = v_time_zone,
                 obs_Description = v_description, obs_Uri = v_uri, obs_Uuid = v_uuid,
                 obs_TimeObservedAtUtc = v_time_observed, obs_PositionalAccuracy = v_accuracy,
                 obs_PublicPositionalAccuracy = v_public_accuracy\<rparr>))))))))))))))))))))
      | _ \<Rightarrow> Inl DecodeError)"

text \<open>
  Modelled from the spec: decoding a response body as a list of summary observations.
  Nested collections decode element-wise; a malformed element fails the whole decode.
\<close>

fun decode_elements :: "'t golib \<Rightarrow> json list \<Rightarrow> error + 't SimpleObservation list" where
  "decode_elements lib [] = Inr []"
| "decode_elements lib (j # js) =
     (case decode_SimpleObservation lib j of Inl e \<Rightarrow> Inl e
      | Inr x \<Rightarrow> (case decode_elements lib js of Inl e \<Rightarrow> Inl e | Inr xs \<Rightarrow> Inr (x # xs)))"

definition decode_SimpleObservations ::
  "'t golib \<Rightarrow> json \<Rightarrow> error + 't SimpleObservation list" where
  "decode_SimpleObservations lib j =
     (case j of JArr js \<Rightarrow> decode_elements lib js | _ \<Rightarrow> Inl DecodeError)"

section \<open>Create, update and delete\<close>

definition StatusCreated :: int where
  "StatusCreated = 201"

definition NewRequest :: "'t golib \<Rightarrow> string \<Rightarrow> string \<Rightarrow> json option \<Rightarrow> error + request" where
  \<comment> \<open>\<^verbatim>\<open>http.NewRequest\<close> fails when the URL does not parse\<close>
  "NewRequest lib m u b =
     (if url_Parse_ok lib u then Inr \<lparr>req_method = m, req_url = u, req_body = b\<rparr>
      else Inl RequestError)"

text \<open>
  Modelled from the spec: \<^verbatim>\<open>execute\<close> is a method of the client that is not in the source
  file. The spec: a transport failure is surfaced to the caller; a response status that
  does not match the expected success code is an UnexpectedStatusError carrying the actual
  status; the body is then decoded into the caller's target, and a body that fails to
  parse into the expected shape is a DecodeError. Without a target nothing is decoded.
\<close>

definition execute ::
  "Client \<Rightarrow> request \<Rightarrow> (json \<Rightarrow> error + 'a) option \<Rightarrow> int \<Rightarrow> error + 'a option" where
  "execute c req target needsStatus =
     (case httpDo c req of Inl msg \<Rightarrow> Inl (TransportError msg)
      | Inr resp \<Rightarrow>
          if status resp \<noteq> needsStatus then Inl (UnexpectedStatusError (status resp))
          else (case target of None \<Rightarrow> Inr None
                | Some decode \<Rightarrow>
                    (case body resp of None \<Rightarrow> Inl DecodeError
                     | Some j \<Rightarrow>
                         (case decode j of Inl e \<Rightarrow> Inl e | Inr x \<Rightarrow> Inr (Some x)))))"

text \<open>
  \<^verbatim>\<open>AddObservation\<close>: the result slice starts as \<^verbatim>\<open>nil\<close>, \<^verbatim>\<open>execute\<close> fills it, and the
  function returns \<^verbatim>\<open>result[0]\<close> with no check of the length; indexing an empty slice
  panics.
\<close>

definition AddObservation ::
  "'t golib \<Rightarrow> Client \<Rightarrow> 't AddObservationOpt option \<Rightarrow> error + 't SimpleObservation" where
  "AddObservation lib c opt =
     (let u = buildUrl c ''/observations.json'' in
      case Marshal_AddObservationOpt lib opt of Inl e \<Rightarrow> Inl e
      | Inr bodyJson \<Rightarrow>
     (case NewRequest lib ''POST'' u (Some bodyJson) of Inl e \<Rightarrow> Inl e
      | Inr req \<Rightarrow>
     (case execute c req (Some (decode_SimpleObservations lib)) StatusCreated of Inl e \<Rightarrow> Inl e
      | Inr filled \<Rightarrow>
          (let result = (case filled of None \<Rightarrow> [] | Some xs \<Rightarrow> xs) in
           case result of [] \<Rightarrow> Inl PanicIndexOutOfRange | x # _ \<Rightarrow> Inr x))))"

text \<open>
  \<^verbatim>\<open>UpdateObservation\<close>: \<^verbatim>\<open>opt.Id\<close> is read first, so a \<^verbatim>\<open>nil\<close> pointer panics. The
  response is decoded into an empty interface, which accepts every JSON document.
\<close>

definition UpdateObservation_url :: "Client \<Rightarrow> 't UpdateObservationOpt \<Rightarrow> string" where
  "UpdateObservation_url c u = buildUrl c (''/observations/'' @ Itoa (sint (upd_Id u)) @ ''.json'')"

definition UpdateObservation_request ::
  "'t golib \<Rightarrow> Client \<Rightarrow> 't UpdateObservationOpt \<Rightarrow> error + request" where
  "UpdateObservation_request lib c u =
     (case Marshal_UpdateObservationOpt lib u of Inl e \<Rightarrow> Inl e
      | Inr bodyJson \<Rightarrow> NewRequest lib ''PUT'' (UpdateObservation_url c u) (Some bodyJson))"

definition UpdateObservation ::
  "'t golib \<Rightarrow> Client \<Rightarrow> 't UpdateObservationOpt option \<Rightarrow> error + unit" where
  "UpdateObservation lib c opt =
     (case opt of None \<Rightarrow> Inl PanicNilDereference
      | Some u \<Rightarrow>
         (case UpdateObservation_request lib c u of Inl e \<Rightarrow> Inl e
          | Inr req \<Rightarrow>
             (case execute c req (Some (\<lambda>j. Inr j)) StatusCreated of Inl e \<Rightarrow> Inl e
              | Inr _ \<Rightarrow> Inr ())))"

text \<open>\<^verbatim>\<open>DeleteObservation\<close>: an empty body, and \<^verbatim>\<open>nil\<close> as the target of \<^verbatim>\<open>execute\<close>.\<close>

definition DeleteObservation :: "'t golib \<Rightarrow> Client \<Rightarrow> int64 \<Rightarrow> error + unit" where
  "DeleteObservation lib c ident =
     (let u = buildUrl c (''/observations/'' @ Itoa (sint ident) @ ''.json'') in
      case NewRequest lib ''DELETE'' u None of Inl e \<Rightarrow> Inl e
      | Inr req \<Rightarrow>
         (case execute c req (None :: (json \<Rightarrow> error + unit) option) StatusCreated of
            Inl e \<Rightarrow> Inl e
          | Inr _ \<Rightarrow> Inr ()))"

section \<open>Zero values and a concrete library\<close>

text \<open>The Go zero values of the option structs: every pointer \<^verbatim>\<open>nil\<close>, every field empty.\<close>

definition GetObservationsOpt_zero :: "'t GetObservationsOpt" where
  "GetObservationsOpt_zero =
     \<lparr>PerPage = None, Page = None, Rectangle = None, On = None, UpdatedSince = None,
      OrderBy = None, OrderAscending = None, HasGeo = None\<rparr>"

definition AddObservationOpt_zero :: "'t golib \<Rightarrow> 't AddObservationOpt" where
  "AddObservationOpt_zero lib =
     \<lparr>add_SpeciesGuess = [], add_ObservedOnString = Time_zero lib, add_Description = [],
      add_Latitude = Finite 0, add_Longitude = Finite 0, add_PositionalAccuracy = 0,
      add_Tags = [], add_GeoPrivacy = []\<rparr>"

definition UpdateObservationOpt_zero :: "'t UpdateObservationOpt" where
  "UpdateObservationOpt_zero =
     \<lparr>upd_Id = 0, upd_SpeciesGuess = [], upd_ObservedOnString = None, upd_Description = [],
      upd_Latitude = Finite 0, upd_Longitude = Finite 0, upd_PositionalAccuracy = 0,
      upd_Tags = [], upd_GeoPrivacy = []\<rparr>"

definition SimpleObservation_zero :: "'t golib \<Rightarrow> 't SimpleObservation" where
  "SimpleObservation_zero lib =
     \<lparr>obs_Id = 0, obs_UserLogin = [], obs_PlaceGuess = [], obs_SpeciesGuess = [],
      obs_Latitude = Finite 0, obs_Longitude = Finite 0, obs_CreatedAt = Time_zero lib,
      obs_ObservedOn = [], obs_ObservedOnString = [], obs_UpdatedAt = Time_zero lib,
      obs_TaxonId = 0, obs_UserId = 0, obs_SiteId = 0, obs_TimeZone = [],
      obs_Description = [], obs_Uri = [], obs_Uuid = [],
      obs_TimeObservedAtUtc = Time_zero lib, obs_PositionalAccuracy = 0,
      obs_PublicPositionalAccuracy = 0\<rparr>"

definition object_keys :: "json \<Rightarrow> string list" where
  "object_keys j = (case j of JObj kvs \<Rightarrow> map fst kvs | _ \<Rightarrow> [])"

text \<open>
  A concrete library, for running the operations on concrete inputs. It stands for no part
  of the repository. A timestamp is its RFC 3339 text in UTC; a float text is a decimal
  numeral with an optional sign and an optional fraction; the float formatter is a
  constant, and no statement below evaluates it.
\<close>

fun parse_digits :: "string \<Rightarrow> nat \<Rightarrow> nat option" where
  "parse_digits [] acc = Some acc"
| "parse_digits (c # cs) acc =
     (if 48 \<le> (of_char c :: nat) \<and> (of_char c :: nat) \<le> 57
      then parse_digits cs (10 * acc + ((of_char c :: nat) - 48)) else None)"

definition parse_unsigned :: "string \<Rightarrow> rat option" where
  "parse_unsigned s =
     (let whole = takeWhile (\<lambda>c. c \<noteq> CHR ''.'') s;
          rest = dropWhile (\<lambda>c. c \<noteq> CHR ''.'') s
      in if whole = [] then None
         else (case parse_digits whole 0 of None \<Rightarrow> None
               | Some a \<Rightarrow>
                   (case rest of [] \<Rightarrow> Some (of_nat a)
                    | _ # fraction \<Rightarrow>
                        if fraction = [] then None
                        else (case parse_digits fraction 0 of None \<Rightarrow> None
                              | Some b \<Rightarrow> Some (of_nat a + of_nat b / 10 ^ length fraction)))))"

definition parse_decimal :: "string \<Rightarrow> float64 option" where
  "parse_decimal s =
     (case s of
        [] \<Rightarrow> None
      | c # cs \<Rightarrow>
          if c = CHR ''-'' then map_option (\<lambda>r. Finite (- r)) (parse_unsigned cs)
          else map_option Finite (parse_unsigned s))"

definition text_lib :: "string golib" where
  "text_lib =
     \<lparr>Sprintf_v = (\<lambda>f. ''0''),
      Format_RFC3339 = (\<lambda>t. t),
      Format_date = take 10,
      Time_MarshalJSON = Some,
      Time_UnmarshalJSON = Some,
      Time_zero = ''0001-01-01T00:00:00Z'',
      ParseFloat = parse_decimal,
      url_Parse_ok = (\<lambda>u. CHR '' '' \<notin> set u)\<rparr>"

definition canned_client :: "int \<Rightarrow> json option \<Rightarrow> Client" where
  \<comment> \<open>a client whose transport answers every request with the same status and body\<close>
  "canned_client st b =
     \<lparr>rootUrl = ''https://www.inaturalist.org'',
      httpDo = (\<lambda>req. Inr \<lparr>status = st, body = b\<rparr>)\<rparr>"

section \<open>Properties of the query builder\<close>

lemma map_of_Set: "map_of (Set v k x) = (map_of v)(k \<mapsto> [x])"
  by (simp add: Set_def update_conv')

text \<open>Each step leaves every key but its own untouched.\<close>

lemma lookup_set_page: "k \<noteq> ''page'' \<Longrightarrow> map_of (set_page opt v) k = map_of v k"
  by (simp add: set_page_def map_of_Set split: option.split)

lemma lookup_set_per_page: "k \<noteq> ''per_page'' \<Longrightarrow> map_of (set_per_page opt v) k = map_of v k"
  by (simp add: set_per_page_def map_of_Set split: option.split)

lemma lookup_set_rectangle:
  "k \<noteq> ''swlng'' \<Longrightarrow> k \<noteq> ''swlat'' \<Longrightarrow> k \<noteq> ''nelng'' \<Longrightarrow> k \<noteq> ''nelat'' \<Longrightarrow>
   map_of (set_rectangle lib opt v) k = map_of v k"
  by (simp add: set_rectangle_def map_of_Set split: option.split)

lemma lookup_set_order_by:
  "k \<noteq> ''order_by'' \<Longrightarrow> k \<noteq> ''order'' \<Longrightarrow> map_of (set_order_by opt v) k = map_of v k"
  by (simp add: set_order_by_def map_of_Set split: option.split)

lemma lookup_set_order: "k \<noteq> ''order'' \<Longrightarrow> map_of (set_order opt v) k = map_of v k"
  by (simp add: set_order_def map_of_Set split: option.split)

lemma lookup_set_updated_since:
  "k \<noteq> ''updated_since'' \<Longrightarrow> map_of (set_updated_since lib opt v) k = map_of v k"
  by (simp add: set_updated_since_def map_of_Set split: option.split)

lemma lookup_set_has_geo: "k \<noteq> ''has[]'' \<Longrightarrow> map_of (set_has_geo opt v) k = map_of v k"
  by (simp add: set_has_geo_def map_of_Set split: option.split)

lemma lookup_set_on: "k \<noteq> ''on'' \<Longrightarrow> map_of (set_on lib opt v) k = map_of v k"
  by (simp add: set_on_def map_of_Set split: option.split)

lemmas lookup_steps = lookup_set_page lookup_set_per_page lookup_set_rectangle
  lookup_set_order_by lookup_set_order lookup_set_updated_since lookup_set_has_geo lookup_set_on

lemmas steps = set_page_def set_per_page_def set_rectangle_def set_order_by_def set_order_def
  set_updated_since_def set_has_geo_def set_on_def

lemma values_zero: "GetObservations_values lib GetObservationsOpt_zero = []"
  by (simp add: GetObservations_values_def GetObservationsOpt_zero_def steps)

lemma Encode_Nil: "Encode [] = []"
  by (simp add: Encode_def query_pairs_def)

text \<open>A parameter of the values is a pair of the query string, key and value escaped.\<close>

lemma pair_in_query:
  assumes "map_of v k = Some xs" and "x \<in> set xs"
  shows "QueryEscape k @ ''='' @ QueryEscape x \<in> set (query_pairs v)"
proof -
  from assms(1) have "(k, xs) \<in> set (sort_key fst v)"
    by (simp add: map_of_SomeD)
  moreover from assms(2) have "QueryEscape k @ ''='' @ QueryEscape x \<in> set (encodePairs (k, xs))"
    by (simp add: encodePairs_def)
  ultimately show ?thesis
    unfolding query_pairs_def by (simp only: set_concat set_map) blast
qed

lemma QueryEscape_order: "QueryEscape ''order'' = ''order''"
  by code_simp

lemma QueryEscape_order_by: "QueryEscape ''order_by'' = ''order_by''"
  by code_simp

lemma QueryEscape_asc: "QueryEscape ''asc'' = ''asc''"
  by code_simp

lemma QueryEscape_desc: "QueryEscape ''desc'' = ''desc''"
  by code_simp

lemma QueryEscape_has: "QueryEscape ''has[]'' = ''has%5B%5D''"
  by code_simp

lemma QueryEscape_geo: "QueryEscape ''geo'' = ''geo''"
  by code_simp

lemma order_pair_in_query:
  "map_of v ''order'' = Some [d] \<Longrightarrow> d = ''asc'' \<or> d = ''desc'' \<Longrightarrow>
   ''order='' @ d \<in> set (query_pairs v)"
  using pair_in_query [of v "''order''" "[d]" d]
  by (auto simp: QueryEscape_order QueryEscape_asc QueryEscape_desc)

lemma order_by_pair_in_query:
  "map_of v ''order_by'' = Some [f] \<Longrightarrow> ''order_by='' @ QueryEscape f \<in> set (query_pairs v)"
  using pair_in_query [of v "''order_by''" "[f]" f]
  by (simp add: QueryEscape_order_by)

lemma has_geo_pair_in_query:
  "map_of v ''has[]'' = Some [''geo''] \<Longrightarrow> ''has%5B%5D=geo'' \<in> set (query_pairs v)"
  using pair_in_query [of v "''has[]''" "[''geo'']" "''geo''"]
  by (simp add: QueryEscape_has QueryEscape_geo)

subsection \<open>Sort field and direction\<close>

lemma order_by_default_desc:
  "OrderBy opt = Some f \<Longrightarrow> OrderAscending opt = None \<Longrightarrow>
   map_of (GetObservations_values lib opt) ''order_by'' = Some [f] \<and>
   map_of (GetObservations_values lib opt) ''order'' = Some [''desc'']"
  by (simp add: GetObservations_values_def lookup_steps set_order_def set_order_by_def map_of_Set)

lemma order_explicit:
  "OrderAscending opt = Some a \<Longrightarrow>
   map_of (GetObservations_values lib opt) ''order'' = Some [if a then ''asc'' else ''desc'']"
  by (simp add: GetObservations_values_def lookup_steps set_order_def map_of_Set)

lemma order_by_absent:
  "OrderBy opt = None \<Longrightarrow> map_of (GetObservations_values lib opt) ''order_by'' = None"
  by (simp add: GetObservations_values_def lookup_steps set_order_by_def)

lemma values_only_ascending:
  "GetObservations_values lib (GetObservationsOpt_zero\<lparr>OrderAscending := Some True\<rparr>)
     = [(''order'', [''asc''])]"
  by (simp add: GetObservations_values_def GetObservationsOpt_zero_def steps Set_def)

lemma values_only_order_by:
  "GetObservations_values lib (GetObservationsOpt_zero\<lparr>OrderBy := Some ''observed_on''\<rparr>)
     = [(''order_by'', [''observed_on'']), (''order'', [''desc''])]"
  by (simp add: GetObservations_values_def GetObservationsOpt_zero_def steps Set_def)

lemma Encode_order_asc: "Encode [(''order'', [''asc''])] = ''order=asc''"
  by code_simp

lemma Encode_order_by:
  "Encode [(''order_by'', [''observed_on'']), (''order'', [''desc''])]
     = ''order=desc&order_by=observed_on''"
  by code_simp

text \<open>
  C3. In the query built for listing observations: when the sort field is set and no
  direction is set, the parameters are \<^verbatim>\<open>order_by\<close> with the field and \<^verbatim>\<open>order\<close> with
  \<^verbatim>\<open>desc\<close>; when a direction is set, \<^verbatim>\<open>order\<close> is present with \<^verbatim>\<open>asc\<close> for true and
  \<^verbatim>\<open>desc\<close> for false, whether or not the sort field is set; and without a sort field there
  is no \<^verbatim>\<open>order_by\<close> key, so a direction of true alone gives \<^verbatim>\<open>order=asc\<close> and no
  \<^verbatim>\<open>order_by\<close>. Each parameter is stated on the values and as a pair of the query string,
  where the sort field is escaped.
\<close>

theorem order_and_order_by_parameters:
  "(OrderBy opt = Some f \<and> OrderAscending opt = None \<longrightarrow>
      map_of (GetObservations_values lib opt) ''order_by'' = Some [f]
      \<and> map_of (GetObservations_values lib opt) ''order'' = Some [''desc'']
      \<and> ''order_by='' @ QueryEscape f \<in> set (query_pairs (GetObservations_values lib opt))
      \<and> ''order=desc'' \<in> set (query_pairs (GetObservations_values lib opt)))
   \<and> (OrderAscending opt = Some True \<longrightarrow>
      map_of (GetObservations_values lib opt) ''order'' = Some [''asc'']
      \<and> ''order=asc'' \<in> set (query_pairs (GetObservations_values lib opt)))
   \<and> (OrderAscending opt = Some False \<longrightarrow>
      map_of (GetObservations_values lib opt) ''order'' = Some [''desc'']
      \<and> ''order=desc'' \<in> set (query_pairs (GetObservations_values lib opt)))
   \<and> (OrderBy opt = None \<longrightarrow>
      map_of (GetObservations_values lib opt) ''order_by'' = None)"
proof (intro conjI impI)
  assume h: "OrderBy opt = Some f \<and> OrderAscending opt = None"
  then have v: "map_of (GetObservations_values lib opt) ''order_by'' = Some [f]"
    "map_of (GetObservations_values lib opt) ''order'' = Some [''desc'']"
    using order_by_default_desc [of opt f lib] by simp_all
  from v show "map_of (GetObservations_values lib opt) ''order_by'' = Some [f]"
    and "map_of (GetObservations_values lib opt) ''order'' = Some [''desc'']"
    by this+
  from v(1) show "''order_by='' @ QueryEscape f \<in> set (query_pairs (GetObservations_values lib opt))"
    by (rule order_by_pair_in_query)
  from order_pair_in_query [OF v(2)]
  show "''order=desc'' \<in> set (query_pairs (GetObservations_values lib opt))"
    by simp
next
  assume "OrderAscending opt = Some True"
  then have v: "map_of (GetObservations_values lib opt) ''order'' = Some [''asc'']"
    using order_explicit [of opt True lib] by simp
  then show "map_of (GetObservations_values lib opt) ''order'' = Some [''asc'']" .
  from order_pair_in_query [OF v]
  show "''order=asc'' \<in> set (query_pairs (GetObservations_values lib opt))"
    by simp
next
  assume "OrderAscending opt = Some False"
  then have v: "map_of (GetObservations_values lib opt) ''order'' = Some [''desc'']"
    using order_explicit [of opt False lib] by simp
  then show "map_of (GetObservations_values lib opt) ''order'' = Some [''desc'']" .
  from order_pair_in_query [OF v]
  show "''order=desc'' \<in> set (query_pairs (GetObservations_values lib opt))"
    by simp
next
  assume "OrderBy opt = None"
  then show "map_of (GetObservations_values lib opt) ''order_by'' = None"
    by (rule order_by_absent)
qed

theorem order_and_order_by_parameters_witness:
  "map_of (GetObservations_values text_lib (GetObservationsOpt_zero\<lparr>OrderAscending := Some True\<rparr>))
       ''order'' = Some [''asc'']
   \<and> map_of (GetObservations_values text_lib (GetObservationsOpt_zero\<lparr>OrderAscending := Some True\<rparr>))
       ''order_by'' = None
   \<and> Encode (GetObservations_values text_lib (GetObservationsOpt_zero\<lparr>OrderAscending := Some True\<rparr>))
       = ''order=asc''
   \<and> map_of (GetObservations_values text_lib (GetObservationsOpt_zero\<lparr>OrderAscending := Some False\<rparr>))
       ''order'' = Some [''desc'']
   \<and> map_of (GetObservations_values text_lib (GetObservationsOpt_zero\<lparr>OrderBy := Some ''observed_on''\<rparr>))
       ''order_by'' = Some [''observed_on'']
   \<and> map_of (GetObservations_values text_lib (GetObservationsOpt_zero\<lparr>OrderBy := Some ''observed_on''\<rparr>))
       ''order'' = Some [''desc'']
   \<and> Encode (GetObservations_values text_lib (GetObservationsOpt_zero\<lparr>OrderBy := Some ''observed_on''\<rparr>))
       = ''order=desc&order_by=observed_on''"
proof -
  let ?asc = "GetObservationsOpt_zero\<lparr>OrderAscending := Some True\<rparr> :: string GetObservationsOpt"
  let ?desc = "GetObservationsOpt_zero\<lparr>OrderAscending := Some False\<rparr> :: string GetObservationsOpt"
  let ?by = "GetObservationsOpt_zero\<lparr>OrderBy := Some ''observed_on''\<rparr> :: string GetObservationsOpt"
  have a: "OrderAscending ?asc = Some True" "OrderBy ?asc = None"
    by (simp_all add: GetObservationsOpt_zero_def)
  have d: "OrderAscending ?desc = Some False"
    by simp
  have b: "OrderBy ?by = Some ''observed_on''" "OrderAscending ?by = None"
    by (simp_all add: GetObservationsOpt_zero_def)
  from order_and_order_by_parameters [of ?asc _ text_lib] a
  have 1: "map_of (GetObservations_values text_lib ?asc) ''order'' = Some [''asc'']"
    and 2: "map_of (GetObservations_values text_lib ?asc) ''order_by'' = None"
    by blast+
  from order_and_order_by_parameters [of ?desc _ text_lib] d
  have 3: "map_of (GetObservations_values text_lib ?desc) ''order'' = Some [''desc'']"
    by blast
  from order_and_order_by_parameters [of ?by "''observed_on''" text_lib] b
  have 4: "map_of (GetObservations_values text_lib ?by) ''order_by'' = Some [''observed_on'']"
    and 5: "map_of (GetObservations_values text_lib ?by) ''order'' = Some [''desc'']"
    by blast+
  have 6: "Encode (GetObservations_values text_lib ?asc) = ''order=asc''"
    by (simp only: values_only_ascending Encode_order_asc)
  have 7: "Encode (GetObservations_values text_lib ?by) = ''order=desc&order_by=observed_on''"
    by (simp only: values_only_order_by Encode_order_by)
  from 1 2 6 3 4 5 7 show ?thesis by (intro conjI)
qed

subsection \<open>The has-geo marker\<close>

lemma set_has_geo_Some: "HasGeo opt = Some b \<Longrightarrow> set_has_geo opt v = Set v ''has[]'' ''geo''"
  by (simp add: set_has_geo_def)

lemma has_geo_frame:
  "set_page (opt\<lparr>HasGeo := h\<rparr>) = set_page opt"
  "set_per_page (opt\<lparr>HasGeo := h\<rparr>) = set_per_page opt"
  "set_rectangle lib (opt\<lparr>HasGeo := h\<rparr>) = set_rectangle lib opt"
  "set_order_by (opt\<lparr>HasGeo := h\<rparr>) = set_order_by opt"
  "set_order (opt\<lparr>HasGeo := h\<rparr>) = set_order opt"
  "set_updated_since lib (opt\<lparr>HasGeo := h\<rparr>) = set_updated_since lib opt"
  "set_on lib (opt\<lparr>HasGeo := h\<rparr>) = set_on lib opt"
  by (simp_all add: steps fun_eq_iff split: option.split)

lemma values_only_has_geo:
  "GetObservations_values lib (GetObservationsOpt_zero\<lparr>HasGeo := Some b\<rparr>) = [(''has[]'', [''geo''])]"
  by (simp add: GetObservations_values_def GetObservationsOpt_zero_def steps Set_def)

lemma Encode_has_geo: "Encode [(''has[]'', [''geo''])] = ''has%5B%5D=geo''"
  by code_simp

text \<open>
  C7. For every list-options value whose has-geo filter is set, the query has the
  parameter \<^verbatim>\<open>has[]\<close> with the value \<^verbatim>\<open>geo\<close>, whatever the boolean is; in the query
  string it is the pair \<^verbatim>\<open>has%5B%5D=geo\<close>. Setting the filter to the other boolean gives
  the same query, so the flag cannot ask for observations without geo data.
\<close>

theorem has_geo_marker_ignores_boolean:
  "HasGeo opt = Some b \<Longrightarrow>
     map_of (GetObservations_values lib opt) ''has[]'' = Some [''geo'']
     \<and> ''has%5B%5D=geo'' \<in> set (query_pairs (GetObservations_values lib opt))
     \<and> GetObservations_values lib (opt\<lparr>HasGeo := Some (\<not> b)\<rparr>) = GetObservations_values lib opt"
proof (intro conjI)
  assume h: "HasGeo opt = Some b"
  then show v: "map_of (GetObservations_values lib opt) ''has[]'' = Some [''geo'']"
    by (simp add: GetObservations_values_def set_has_geo_Some lookup_set_on map_of_Set)
  then show "''has%5B%5D=geo'' \<in> set (query_pairs (GetObservations_values lib opt))"
    by (rule has_geo_pair_in_query)
  from h show "GetObservations_values lib (opt\<lparr>HasGeo := Some (\<not> b)\<rparr>)
      = GetObservations_values lib opt"
    by (simp add: GetObservations_values_def has_geo_frame set_has_geo_Some)
qed

theorem has_geo_marker_ignores_boolean_witness:
  "HasGeo (GetObservationsOpt_zero\<lparr>HasGeo := Some False\<rparr> :: string GetObservationsOpt) = Some False
   \<and> map_of (GetObservations_values text_lib (GetObservationsOpt_zero\<lparr>HasGeo := Some False\<rparr>))
        ''has[]'' = Some [''geo'']
   \<and> GetObservations_values text_lib (GetObservationsOpt_zero\<lparr>HasGeo := Some True\<rparr>)
       = GetObservations_values text_lib (GetObservationsOpt_zero\<lparr>HasGeo := Some False\<rparr>)
   \<and> Encode (GetObservations_values text_lib (GetObservationsOpt_zero\<lparr>HasGeo := Some False\<rparr>))
       = ''has%5B%5D=geo''"
  using has_geo_marker_ignores_boolean
    [of "GetObservationsOpt_zero\<lparr>HasGeo := Some False\<rparr>" False text_lib]
  by (simp add: values_only_has_geo Encode_has_geo)

subsection \<open>Page and page size; no options\<close>

lemma Itoa_2: "Itoa 2 = ''2''"
  by code_simp

lemma Itoa_50: "Itoa 50 = ''50''"
  by code_simp

lemma values_page_per_page:
  "GetObservations_values lib (GetObservationsOpt_zero\<lparr>Page := Some 2, PerPage := Some 50\<rparr>)
     = [(''page'', [''2'']), (''per_page'', [''50''])]"
  by (simp add: GetObservations_values_def GetObservationsOpt_zero_def steps Set_def Itoa_2 Itoa_50)

lemma Encode_page_per_page:
  "Encode [(''page'', [''2'']), (''per_page'', [''50''])] = ''page=2&per_page=50''"
  by code_simp

text \<open>
  C8. With only page 2 and a page size of 50 set, the query has exactly the two
  parameters \<^verbatim>\<open>page=2\<close> and \<^verbatim>\<open>per_page=50\<close>, its encoding is \<^verbatim>\<open>page=2&per_page=50\<close>, and
  the request URL is the base URL followed by \<^verbatim>\<open>?\<close> and that string. With no options
  (a \<^verbatim>\<open>nil\<close> pointer, or a struct in which nothing is set) the request URL is the base URL
  with no suffix.
\<close>

theorem page_query_and_clean_url:
  "GetObservations_values lib (GetObservationsOpt_zero\<lparr>Page := Some 2, PerPage := Some 50\<rparr>)
     = [(''page'', [''2'']), (''per_page'', [''50''])]
   \<and> Encode (GetObservations_values lib (GetObservationsOpt_zero\<lparr>Page := Some 2, PerPage := Some 50\<rparr>))
     = ''page=2&per_page=50''
   \<and> GetObservations_url lib c (Some (GetObservationsOpt_zero\<lparr>Page := Some 2, PerPage := Some 50\<rparr>))
     = buildUrl c ''/observations.json'' @ ''?page=2&per_page=50''
   \<and> GetObservations_url lib c None = buildUrl c ''/observations.json''
   \<and> GetObservations_url lib c (Some GetObservationsOpt_zero) = buildUrl c ''/observations.json''"
  by (simp add: GetObservations_url_def values_page_per_page Encode_page_per_page values_zero
      Encode_Nil)

theorem page_query_and_clean_url_witness:
  "GetObservations_url text_lib (canned_client 200 None)
       (Some (GetObservationsOpt_zero\<lparr>Page := Some 2, PerPage := Some 50\<rparr>))
     = ''https://www.inaturalist.org/observations.json?page=2&per_page=50''
   \<and> GetObservations_url text_lib (canned_client 200 None) None
     = ''https://www.inaturalist.org/observations.json''
   \<and> GetObservations_url text_lib (canned_client 200 None) (Some GetObservationsOpt_zero)
     = ''https://www.inaturalist.org/observations.json''"
  using page_query_and_clean_url [of text_lib "canned_client 200 None"]
  by (simp add: buildUrl_def canned_client_def)

subsection \<open>The bounding rectangle\<close>

text \<open>
  The four corner coordinates go to the keys \<^verbatim>\<open>swlng\<close>, \<^verbatim>\<open>swlat\<close>, \<^verbatim>\<open>nelng\<close> and
  \<^verbatim>\<open>nelat\<close>, each as the library formats it; with only a rectangle set these are the only
  parameters.
\<close>

lemma rectangle_parameters:
  "Rectangle opt = Some r \<Longrightarrow>
     map_of (GetObservations_values lib opt) ''swlng'' = Some [Sprintf_v lib (Longitude (Southwest r))]
     \<and> map_of (GetObservations_values lib opt) ''swlat'' = Some [Sprintf_v lib (Latitude (Southwest r))]
     \<and> map_of (GetObservations_values lib opt) ''nelng'' = Some [Sprintf_v lib (Longitude (Northeast r))]
     \<and> map_of (GetObservations_values lib opt) ''nelat'' = Some [Sprintf_v lib (Latitude (Northeast r))]"
  by (simp add: GetObservations_values_def lookup_steps set_rectangle_def map_of_Set)

lemma rectangle_only:
  "GetObservations_values lib (GetObservationsOpt_zero\<lparr>Rectangle := Some r\<rparr>)
     = [(''swlng'', [Sprintf_v lib (Longitude (Southwest r))]),
        (''swlat'', [Sprintf_v lib (Latitude (Southwest r))]),
        (''nelng'', [Sprintf_v lib (Longitude (Northeast r))]),
        (''nelat'', [Sprintf_v lib (Latitude (Northeast r))])]"
  by (simp add: GetObservations_values_def GetObservationsOpt_zero_def steps Set_def)

section \<open>Properties of the request bodies\<close>

subsection \<open>The create body\<close>

lemma Marshal_Add_keys:
  "Marshal_AddObservationOpt lib (Some a) = Inr j \<Longrightarrow>
   object_keys j = [''species_guess'', ''observed_on_string'', ''description'', ''latitude'',
     ''longitude'', ''positional_accuracy'', ''tag_list'', ''geoprivacy'']"
  by (auto simp: Marshal_AddObservationOpt_def object_keys_def split: sum.splits)

lemma Marshal_Add_succeeds:
  "Time_MarshalJSON lib (add_ObservedOnString a) = Some s \<Longrightarrow> add_Latitude a = Finite x \<Longrightarrow>
   add_Longitude a = Finite y \<Longrightarrow>
   Marshal_AddObservationOpt lib (Some a) = Inr (JObj
     [(''species_guess'', JStr (add_SpeciesGuess a)),
      (''observed_on_string'', JStr s),
      (''description'', JStr (add_Description a)),
      (''latitude'', JNum x),
      (''longitude'', JNum y),
      (''positional_accuracy'', marshalInt32 (add_PositionalAccuracy a)),
      (''tag_list'', JStr (add_Tags a)),
      (''geoprivacy'', JStr (add_GeoPrivacy a))])"
  by (simp add: Marshal_AddObservationOpt_def marshalTime_def marshalFloat_def)

lemma Marshal_Add_zero:
  "Marshal_AddObservationOpt text_lib (Some (AddObservationOpt_zero text_lib)) =
     Inr (JObj
       [(''species_guess'', JStr []),
        (''observed_on_string'', JStr ''0001-01-01T00:00:00Z''),
        (''description'', JStr []),
        (''latitude'', JNum 0),
        (''longitude'', JNum 0),
        (''positional_accuracy'', JNum 0),
        (''tag_list'', JStr []),
        (''geoprivacy'', JStr [])])"
  by (simp add: Marshal_AddObservationOpt_def AddObservationOpt_zero_def text_lib_def
      marshalTime_def marshalFloat_def marshalInt32_def)

text \<open>
  C10. For every create-options value, the serialized create body has all eight keys
  \<^verbatim>\<open>species_guess\<close>, \<^verbatim>\<open>observed_on_string\<close>, \<^verbatim>\<open>description\<close>, \<^verbatim>\<open>latitude\<close>, \<^verbatim>\<open>longitude\<close>,
  \<^verbatim>\<open>positional_accuracy\<close>, \<^verbatim>\<open>tag_list\<close> and \<^verbatim>\<open>geoprivacy\<close>, also when the fields hold
  their zero values: the misspelt option \<^verbatim>\<open>omit_empty\<close> on \<^verbatim>\<open>observed_on_string\<close> omits
  nothing. The body exists whenever the timestamp encodes and both coordinates are finite.
\<close>

theorem create_body_has_all_eight_keys:
  "(Time_MarshalJSON lib (add_ObservedOnString a) \<noteq> None
      \<and> add_Latitude a = Finite x \<and> add_Longitude a = Finite y
      \<longrightarrow> (\<exists>j. Marshal_AddObservationOpt lib (Some a) = Inr j))
   \<and> (\<forall>j. Marshal_AddObservationOpt lib (Some a) = Inr j \<longrightarrow>
        object_keys j = [''species_guess'', ''observed_on_string'', ''description'', ''latitude'',
          ''longitude'', ''positional_accuracy'', ''tag_list'', ''geoprivacy''])"
  using Marshal_Add_keys [of lib a] Marshal_Add_succeeds [of lib a _ x y] by auto

theorem create_body_has_all_eight_keys_witness:
  "Marshal_AddObservationOpt text_lib (Some (AddObservationOpt_zero text_lib)) =
     Inr (JObj
       [(''species_guess'', JStr []),
        (''observed_on_string'', JStr ''0001-01-01T00:00:00Z''),
        (''description'', JStr []),
        (''latitude'', JNum 0),
        (''longitude'', JNum 0),
        (''positional_accuracy'', JNum 0),
        (''tag_list'', JStr []),
        (''geoprivacy'', JStr [])])
   \<and> object_keys (JObj
       [(''species_guess'', JStr []),
        (''observed_on_string'', JStr ''0001-01-01T00:00:00Z''),
        (''description'', JStr []),
        (''latitude'', JNum 0),
        (''longitude'', JNum 0),
        (''positional_accuracy'', JNum 0),
        (''tag_list'', JStr []),
        (''geoprivacy'', JStr [])])
     = [''species_guess'', ''observed_on_string'', ''description'', ''latitude'',
        ''longitude'', ''positional_accuracy'', ''tag_list'', ''geoprivacy'']"
  using create_body_has_all_eight_keys [of text_lib "AddObservationOpt_zero text_lib" 0 0]
    Marshal_Add_zero
  by simp

subsection \<open>The update body\<close>

lemma keys_omitemptyString: "map fst (omitemptyString k s) = (if s = [] then [] else [k])"
  by (simp add: omitemptyString_def)

lemma keys_omitemptyInt32: "map fst (omitemptyInt32 k w) = (if w = 0 then [] else [k])"
  by (simp add: omitemptyInt32_def)

lemma keys_omitemptyFloat:
  "omitemptyFloat k f = Inr xs \<Longrightarrow> map fst xs = (if f = Finite 0 then [] else [k])"
  by (auto simp: omitemptyFloat_def split: if_splits sum.splits)

lemma keys_omitemptyTime:
  "omitemptyTime lib k p = Inr xs \<Longrightarrow> map fst xs = (if p = None then [] else [k])"
  by (auto simp: omitemptyTime_def split: option.splits sum.splits)

lemma fields_Update_keys:
  assumes "fields_UpdateObservationOpt lib u = Inr kvs"
  shows "map fst kvs =
      (if upd_SpeciesGuess u = [] then [] else [''species_guess''])
    @ (if upd_ObservedOnString u = None then [] else [''observed_on_string''])
    @ (if upd_Description u = [] then [] else [''description''])
    @ (if upd_Latitude u = Finite 0 then [] else [''latitude''])
    @ (if upd_Longitude u = Finite 0 then [] else [''longitude''])
    @ (if upd_PositionalAccuracy u = 0 then [] else [''positional_accuracy''])
    @ (if upd_Tags u = [] then [] else [''tag_list''])
    @ (if upd_GeoPrivacy u = [] then [] else [''geoprivacy''])"
proof -
  from assms obtain observed lat lng where
    o: "omitemptyTime lib ''observed_on_string'' (upd_ObservedOnString u) = Inr observed" and
    la: "omitemptyFloat ''latitude'' (upd_Latitude u) = Inr lat" and
    lo: "omitemptyFloat ''longitude'' (upd_Longitude u) = Inr lng" and
    k: "kvs = omitemptyString ''species_guess'' (upd_SpeciesGuess u)
              @ observed
              @ omitemptyString ''description'' (upd_Description u)
              @ lat
              @ lng
              @ omitemptyInt32 ''positional_accuracy'' (upd_PositionalAccuracy u)
              @ omitemptyString ''tag_list'' (upd_Tags u)
              @ omitemptyString ''geoprivacy'' (upd_GeoPrivacy u)"
    by (auto simp: fields_UpdateObservationOpt_def split: sum.splits)
  show ?thesis
    unfolding k map_append keys_omitemptyString keys_omitemptyInt32
      keys_omitemptyFloat [OF la] keys_omitemptyFloat [OF lo] keys_omitemptyTime [OF o]
    by (rule refl)
qed

lemma Marshal_Update_Inr:
  "Marshal_UpdateObservationOpt lib u = Inr j \<longleftrightarrow>
     (\<exists>kvs. fields_UpdateObservationOpt lib u = Inr kvs \<and> j = JObj kvs)"
  by (auto simp: Marshal_UpdateObservationOpt_def split: sum.splits)

lemma Marshal_Update_succeeds:
  assumes "upd_ObservedOnString u = None" and "upd_Latitude u = Finite x"
    and "upd_Longitude u = Finite y"
  shows "\<exists>j. Marshal_UpdateObservationOpt lib u = Inr j"
  using assms
  by (simp add: Marshal_UpdateObservationOpt_def fields_UpdateObservationOpt_def
      omitemptyTime_def omitemptyFloat_def marshalFloat_def)

lemma update_keys_iff:
  assumes "fields_UpdateObservationOpt lib u = Inr kvs"
  shows "(''species_guess'' \<in> set (map fst kvs) \<longleftrightarrow> upd_SpeciesGuess u \<noteq> [])
    \<and> (''observed_on_string'' \<in> set (map fst kvs) \<longleftrightarrow> upd_ObservedOnString u \<noteq> None)
    \<and> (''description'' \<in> set (map fst kvs) \<longleftrightarrow> upd_Description u \<noteq> [])
    \<and> (''latitude'' \<in> set (map fst kvs) \<longleftrightarrow> upd_Latitude u \<noteq> Finite 0)
    \<and> (''longitude'' \<in> set (map fst kvs) \<longleftrightarrow> upd_Longitude u \<noteq> Finite 0)
    \<and> (''positional_accuracy'' \<in> set (map fst kvs) \<longleftrightarrow> upd_PositionalAccuracy u \<noteq> 0)
    \<and> (''tag_list'' \<in> set (map fst kvs) \<longleftrightarrow> upd_Tags u \<noteq> [])
    \<and> (''geoprivacy'' \<in> set (map fst kvs) \<longleftrightarrow> upd_GeoPrivacy u \<noteq> [])"
  unfolding fields_Update_keys [OF assms] by simp

lemma fields_zero_tags_latitude:
  "fields_UpdateObservationOpt text_lib
     (UpdateObservationOpt_zero\<lparr>upd_Tags := [], upd_Latitude := Finite 0\<rparr>) = Inr []"
  by (simp add: fields_UpdateObservationOpt_def UpdateObservationOpt_zero_def omitemptyTime_def
      omitemptyFloat_def omitemptyString_def omitemptyInt32_def)

lemma Marshal_moss_and_time:
  "Marshal_UpdateObservationOpt text_lib
     (UpdateObservationOpt_zero
        \<lparr>upd_Tags := ''moss'', upd_ObservedOnString := Some ''0001-01-01T00:00:00Z''\<rparr>)
   = Inr (JObj [(''observed_on_string'', JStr ''0001-01-01T00:00:00Z''),
                (''tag_list'', JStr ''moss'')])"
  by (simp add: Marshal_UpdateObservationOpt_def fields_UpdateObservationOpt_def
      UpdateObservationOpt_zero_def omitemptyTime_def omitemptyFloat_def omitemptyString_def
      omitemptyInt32_def marshalTime_def text_lib_def)

text \<open>
  C2, as the code has it. A field of the update options is a key of the serialized body
  exactly when it holds a value other than its zero value: a non-empty string, a number
  other than zero, a timestamp pointer that is not \<^verbatim>\<open>nil\<close>. A field left unset and a field
  explicitly set to its zero value (tags set to the empty string, latitude set to 0) are
  the same value and produce no key; only \<^verbatim>\<open>ObservedOnString\<close>, a pointer, is sent for
  every timestamp it points to. The body exists whenever the timestamp is unset and both
  coordinates are finite.
\<close>

theorem update_body_key_iff_field_nonzero:
  "(upd_ObservedOnString u = None \<and> upd_Latitude u = Finite x \<and> upd_Longitude u = Finite y
      \<longrightarrow> (\<exists>j. Marshal_UpdateObservationOpt lib u = Inr j))
   \<and> (\<forall>j. Marshal_UpdateObservationOpt lib u = Inr j \<longrightarrow>
        (''species_guess'' \<in> set (object_keys j) \<longleftrightarrow> upd_SpeciesGuess u \<noteq> [])
        \<and> (''observed_on_string'' \<in> set (object_keys j) \<longleftrightarrow> upd_ObservedOnString u \<noteq> None)
        \<and> (''description'' \<in> set (object_keys j) \<longleftrightarrow> upd_Description u \<noteq> [])
        \<and> (''latitude'' \<in> set (object_keys j) \<longleftrightarrow> upd_Latitude u \<noteq> Finite 0)
        \<and> (''longitude'' \<in> set (object_keys j) \<longleftrightarrow> upd_Longitude u \<noteq> Finite 0)
        \<and> (''positional_accuracy'' \<in> set (object_keys j) \<longleftrightarrow> upd_PositionalAccuracy u \<noteq> 0)
        \<and> (''tag_list'' \<in> set (object_keys j) \<longleftrightarrow> upd_Tags u \<noteq> [])
        \<and> (''geoprivacy'' \<in> set (object_keys j) \<longleftrightarrow> upd_GeoPrivacy u \<noteq> []))"
proof (intro conjI allI impI)
  assume "upd_ObservedOnString u = None \<and> upd_Latitude u = Finite x \<and> upd_Longitude u = Finite y"
  then show "\<exists>j. Marshal_UpdateObservationOpt lib u = Inr j"
    using Marshal_Update_succeeds [of u x y lib] by blast
next
  fix j
  assume "Marshal_UpdateObservationOpt lib u = Inr j"
  then obtain kvs where f: "fields_UpdateObservationOpt lib u = Inr kvs" and j: "j = JObj kvs"
    unfolding Marshal_Update_Inr by blast
  have k: "object_keys j = map fst kvs"
    by (simp add: j object_keys_def)
  note iff = update_keys_iff [OF f, folded k]
  show "''species_guess'' \<in> set (object_keys j) \<longleftrightarrow> upd_SpeciesGuess u \<noteq> []"
    using iff by (elim conjE)
  show "''observed_on_string'' \<in> set (object_keys j) \<longleftrightarrow> upd_ObservedOnString u \<noteq> None"
    using iff by (elim conjE)
  show "''description'' \<in> set (object_keys j) \<longleftrightarrow> upd_Description u \<noteq> []"
    using iff by (elim conjE)
  show "''latitude'' \<in> set (object_keys j) \<longleftrightarrow> upd_Latitude u \<noteq> Finite 0"
    using iff by (elim conjE)
  show "''longitude'' \<in> set (object_keys j) \<longleftrightarrow> upd_Longitude u \<noteq> Finite 0"
    using iff by (elim conjE)
  show "''positional_accuracy'' \<in> set (object_keys j) \<longleftrightarrow> upd_PositionalAccuracy u \<noteq> 0"
    using iff by (elim conjE)
  show "''tag_list'' \<in> set (object_keys j) \<longleftrightarrow> upd_Tags u \<noteq> []"
    using iff by (elim conjE)
  show "''geoprivacy'' \<in> set (object_keys j) \<longleftrightarrow> upd_GeoPrivacy u \<noteq> []"
    using iff by (elim conjE)
qed

theorem update_body_key_iff_field_nonzero_witness:
  "Marshal_UpdateObservationOpt text_lib
     (UpdateObservationOpt_zero
        \<lparr>upd_Tags := ''moss'', upd_ObservedOnString := Some ''0001-01-01T00:00:00Z''\<rparr>)
     = Inr (JObj [(''observed_on_string'', JStr ''0001-01-01T00:00:00Z''),
                  (''tag_list'', JStr ''moss'')])
   \<and> ''tag_list'' \<in> set (object_keys
         (JObj [(''observed_on_string'', JStr ''0001-01-01T00:00:00Z''),
                (''tag_list'', JStr ''moss'')]))
   \<and> ''latitude'' \<notin> set (object_keys
         (JObj [(''observed_on_string'', JStr ''0001-01-01T00:00:00Z''),
                (''tag_list'', JStr ''moss'')]))"
proof -
  let ?u = "UpdateObservationOpt_zero
        \<lparr>upd_Tags := ''moss'', upd_ObservedOnString := Some ''0001-01-01T00:00:00Z''\<rparr>
        :: string UpdateObservationOpt"
  let ?j = "JObj [(''observed_on_string'', JStr ''0001-01-01T00:00:00Z''),
                  (''tag_list'', JStr ''moss'')]"
  have t: "upd_Tags ?u \<noteq> []" and l: "upd_Latitude ?u = Finite 0"
    by (simp_all add: UpdateObservationOpt_zero_def)
  from update_body_key_iff_field_nonzero [of ?u _ _ text_lib] Marshal_moss_and_time
  have "(''tag_list'' \<in> set (object_keys ?j) \<longleftrightarrow> upd_Tags ?u \<noteq> [])
      \<and> (''latitude'' \<in> set (object_keys ?j) \<longleftrightarrow> upd_Latitude ?u \<noteq> Finite 0)"
    by blast
  with t l have "''tag_list'' \<in> set (object_keys ?j)" and "''latitude'' \<notin> set (object_keys ?j)"
    by blast+
  with Marshal_moss_and_time show ?thesis
    by (intro conjI)
qed

text \<open>
  The claim as the spec states it fails: with tags explicitly set to the empty string and
  latitude explicitly set to 0, the serialized body is the empty object.
\<close>

theorem explicit_zero_fields_are_omitted_counterexample:
  "Marshal_UpdateObservationOpt text_lib
     (UpdateObservationOpt_zero\<lparr>upd_Tags := [], upd_Latitude := Finite 0\<rparr>) = Inr (JObj [])"
  by (simp add: Marshal_UpdateObservationOpt_def fields_zero_tags_latitude)

subsection \<open>The observation id and the update request\<close>

lemma fields_Update_Id:
  "fields_UpdateObservationOpt lib (u\<lparr>upd_Id := i\<rparr>) = fields_UpdateObservationOpt lib u"
  by (simp add: fields_UpdateObservationOpt_def cong: sum.case_cong)

lemma fields_Update_key_set:
  assumes "fields_UpdateObservationOpt lib u = Inr kvs"
  shows "set (map fst kvs) \<subseteq> {''species_guess'', ''observed_on_string'', ''description'',
     ''latitude'', ''longitude'', ''positional_accuracy'', ''tag_list'', ''geoprivacy''}"
  unfolding fields_Update_keys [OF assms] by auto

lemma Itoa_7: "Itoa 7 = ''7''"
  by code_simp

lemma request_7:
  "UpdateObservation_request text_lib (canned_client 201 None)
     (UpdateObservationOpt_zero\<lparr>upd_Id := 7, upd_Tags := ''moss''\<rparr>)
   = Inr \<lparr>req_method = ''PUT'', req_url = ''https://www.inaturalist.org/observations/7.json'',
          req_body = Some (JObj [(''tag_list'', JStr ''moss'')])\<rparr>"
  by (simp add: UpdateObservation_request_def Marshal_UpdateObservationOpt_def
      fields_UpdateObservationOpt_def UpdateObservationOpt_zero_def omitemptyTime_def
      omitemptyFloat_def omitemptyString_def omitemptyInt32_def NewRequest_def
      UpdateObservation_url_def buildUrl_def canned_client_def text_lib_def Itoa_7)

text \<open>
  C9. For every update-options value the observation id is not part of the serialized
  body: two values that differ only in \<^verbatim>\<open>Id\<close> serialize to the same body, and the keys of
  a body are among the eight tagged names. The id appears in the request path
  \<^verbatim>\<open>/observations/<id>.json\<close>, which is the URL of the request that carries the body.
\<close>

theorem update_id_only_in_path:
  "Marshal_UpdateObservationOpt lib (u\<lparr>upd_Id := i\<rparr>) = Marshal_UpdateObservationOpt lib u
   \<and> UpdateObservation_url c (u\<lparr>upd_Id := i\<rparr>)
       = buildUrl c (''/observations/'' @ Itoa (sint i) @ ''.json'')
   \<and> (\<forall>j. Marshal_UpdateObservationOpt lib u = Inr j \<longrightarrow>
        set (object_keys j) \<subseteq> {''species_guess'', ''observed_on_string'', ''description'',
          ''latitude'', ''longitude'', ''positional_accuracy'', ''tag_list'', ''geoprivacy''})
   \<and> (\<forall>req. UpdateObservation_request lib c u = Inr req \<longrightarrow>
        req_url req = UpdateObservation_url c u
        \<and> (\<exists>j. req_body req = Some j \<and> Marshal_UpdateObservationOpt lib u = Inr j))"
proof (intro conjI allI impI)
  show "Marshal_UpdateObservationOpt lib (u\<lparr>upd_Id := i\<rparr>) = Marshal_UpdateObservationOpt lib u"
    by (simp add: Marshal_UpdateObservationOpt_def fields_Update_Id)
  show "UpdateObservation_url c (u\<lparr>upd_Id := i\<rparr>)
       = buildUrl c (''/observations/'' @ Itoa (sint i) @ ''.json'')"
    by (simp add: UpdateObservation_url_def)
next
  fix j assume "Marshal_UpdateObservationOpt lib u = Inr j"
  then obtain kvs where "fields_UpdateObservationOpt lib u = Inr kvs" and "j = JObj kvs"
    unfolding Marshal_Update_Inr by blast
  then show "set (object_keys j) \<subseteq> {''species_guess'', ''observed_on_string'', ''description'',
          ''latitude'', ''longitude'', ''positional_accuracy'', ''tag_list'', ''geoprivacy''}"
    using fields_Update_key_set [of lib u kvs] by (simp add: object_keys_def)
next
  fix req assume r: "UpdateObservation_request lib c u = Inr req"
  then show "req_url req = UpdateObservation_url c u"
    by (auto simp: UpdateObservation_request_def NewRequest_def split: sum.splits if_splits)
  from r show "\<exists>j. req_body req = Some j \<and> Marshal_UpdateObservationOpt lib u = Inr j"
    by (auto simp: UpdateObservation_request_def NewRequest_def split: sum.splits if_splits)
qed

theorem update_id_only_in_path_witness:
  "Marshal_UpdateObservationOpt text_lib
       (UpdateObservationOpt_zero\<lparr>upd_Id := 5, upd_Tags := ''moss''\<rparr>)
     = Inr (JObj [(''tag_list'', JStr ''moss'')])
   \<and> Marshal_UpdateObservationOpt text_lib
       (UpdateObservationOpt_zero\<lparr>upd_Id := 7, upd_Tags := ''moss''\<rparr>)
     = Inr (JObj [(''tag_list'', JStr ''moss'')])
   \<and> UpdateObservation_request text_lib (canned_client 201 None)
        (UpdateObservationOpt_zero\<lparr>upd_Id := 7, upd_Tags := ''moss''\<rparr>)
     = Inr \<lparr>req_method = ''PUT'', req_url = ''https://www.inaturalist.org/observations/7.json'',
            req_body = Some (JObj [(''tag_list'', JStr ''moss'')])\<rparr>"
proof -
  let ?u5 = "UpdateObservationOpt_zero\<lparr>upd_Id := 5, upd_Tags := ''moss''\<rparr>
    :: string UpdateObservationOpt"
  let ?u7 = "UpdateObservationOpt_zero\<lparr>upd_Id := 7, upd_Tags := ''moss''\<rparr>
    :: string UpdateObservationOpt"
  have u: "?u5\<lparr>upd_Id := 7\<rparr> = ?u7"
    by simp
  have "Marshal_UpdateObservationOpt text_lib (?u5\<lparr>upd_Id := 7\<rparr>)
      = Marshal_UpdateObservationOpt text_lib ?u5"
    using update_id_only_in_path
      [where lib = text_lib and u = ?u5 and i = 7 and c = "canned_client 201 None"]
    by (rule conjunct1)
  then have same:
    "Marshal_UpdateObservationOpt text_lib ?u5 = Marshal_UpdateObservationOpt text_lib ?u7"
    unfolding u by (rule sym)
  have m7: "Marshal_UpdateObservationOpt text_lib ?u7 = Inr (JObj [(''tag_list'', JStr ''moss'')])"
    by (simp add: Marshal_UpdateObservationOpt_def fields_UpdateObservationOpt_def
        UpdateObservationOpt_zero_def omitemptyTime_def omitemptyFloat_def omitemptyString_def
        omitemptyInt32_def)
  from same m7 request_7 show ?thesis
    by (simp only: simp_thms)
qed

section \<open>Properties of decoding\<close>

lemma bind_err_Inr: "bind_err m f = Inr y \<longleftrightarrow> (\<exists>x. m = Inr x \<and> f x = Inr y)"
  by (cases m) (simp_all add: bind_err_def)

lemma bind_err_Inl: "bind_err m f = Inl e \<longleftrightarrow> m = Inl e \<or> (\<exists>x. m = Inr x \<and> f x = Inl e)"
  by (cases m) (simp_all add: bind_err_def)

lemma bind_err_Inr_left: "bind_err (Inr x) f = f x"
  by (simp add: bind_err_def)

lemma decodeString_error: "decodeString j = Inl e \<Longrightarrow> e = DecodeError"
  by (auto simp: decodeString_def split: json.splits)

lemma decodeInt64_error: "decodeInt64 j = Inl e \<Longrightarrow> e = DecodeError"
  by (auto simp: decodeInt64_def split: json.splits if_splits)

lemma decodeInt32_error: "decodeInt32 j = Inl e \<Longrightarrow> e = DecodeError"
  by (auto simp: decodeInt32_def split: json.splits if_splits)

lemma decodeTime_error: "decodeTime lib j = Inl e \<Longrightarrow> e = DecodeError"
  by (auto simp: decodeTime_def split: json.splits option.splits)

lemma decodeFloatString_error: "decodeFloatString lib j = Inl e \<Longrightarrow> e = DecodeError"
  by (auto simp: decodeFloatString_def split: json.splits option.splits)

lemmas decode_errors = decodeString_error decodeInt64_error decodeInt32_error decodeTime_error
  decodeFloatString_error

lemma decode_SimpleObservation_error:
  "decode_SimpleObservation lib j = Inl e \<Longrightarrow> e = DecodeError"
  by (auto simp: decode_SimpleObservation_def bind_err_Inl split: json.splits dest: decode_errors)

lemma decode_SimpleObservation_latitude:
  "decode_SimpleObservation lib (JObj kvs) = Inr ob \<Longrightarrow>
   decodeFloatString lib (member_of kvs ''latitude'') = Inr (obs_Latitude ob)"
  by (auto simp: decode_SimpleObservation_def bind_err_Inr)

lemma decode_SimpleObservation_longitude:
  "decode_SimpleObservation lib (JObj kvs) = Inr ob \<Longrightarrow>
   decodeFloatString lib (member_of kvs ''longitude'') = Inr (obs_Longitude ob)"
  by (auto simp: decode_SimpleObservation_def bind_err_Inr)

lemma member_of_Some: "map_of kvs k = Some j \<Longrightarrow> member_of kvs k = j"
  by (simp add: member_of_def)

lemma member_of_single: "member_of [(k, j)] k' = (if k = k' then j else JNull)"
  by (simp add: member_of_def)

lemma decode_JNull:
  "decodeString JNull = Inr []" "decodeInt64 JNull = Inr 0" "decodeInt32 JNull = Inr 0"
  "decodeTime lib JNull = Inr (Time_zero lib)" "decodeFloatString lib JNull = Inr (Finite 0)"
  by (simp_all add: decodeString_def decodeInt64_def decodeInt32_def decodeTime_def
      decodeFloatString_def)

lemma decodeFloatString_JStr:
  "decodeFloatString lib (JStr s) =
     (case ParseFloat lib s of None \<Rightarrow> Inl DecodeError | Some f \<Rightarrow> Inr f)"
  by (simp add: decodeFloatString_def)

lemma decode_only_latitude:
  "ParseFloat lib s = Some f \<Longrightarrow>
   decode_SimpleObservation lib (JObj [(''latitude'', JStr s)])
     = Inr ((SimpleObservation_zero lib)\<lparr>obs_Latitude := f\<rparr>)"
  by (simp add: decode_SimpleObservation_def member_of_single decode_JNull decodeFloatString_JStr
      bind_err_Inr_left SimpleObservation_zero_def)

lemma decode_only_longitude:
  "ParseFloat lib s = Some f \<Longrightarrow>
   decode_SimpleObservation lib (JObj [(''longitude'', JStr s)])
     = Inr ((SimpleObservation_zero lib)\<lparr>obs_Longitude := f\<rparr>)"
  by (simp add: decode_SimpleObservation_def member_of_single decode_JNull decodeFloatString_JStr
      bind_err_Inr_left SimpleObservation_zero_def)

lemma decode_latitude_string:
  assumes "map_of kvs ''latitude'' = Some (JStr s)"
  shows "ParseFloat lib s = None \<longrightarrow> decode_SimpleObservation lib (JObj kvs) = Inl DecodeError"
    and "\<forall>ob. decode_SimpleObservation lib (JObj kvs) = Inr ob \<longrightarrow>
           ParseFloat lib s = Some (obs_Latitude ob)"
proof -
  have ok: "ParseFloat lib s = Some (obs_Latitude ob)"
    if "decode_SimpleObservation lib (JObj kvs) = Inr ob" for ob
    using decode_SimpleObservation_latitude [OF that] member_of_Some [OF assms]
    by (simp add: decodeFloatString_JStr split: option.splits)
  then show "\<forall>ob. decode_SimpleObservation lib (JObj kvs) = Inr ob \<longrightarrow>
      ParseFloat lib s = Some (obs_Latitude ob)"
    by blast
  show "ParseFloat lib s = None \<longrightarrow> decode_SimpleObservation lib (JObj kvs) = Inl DecodeError"
  proof
    assume n: "ParseFloat lib s = None"
    show "decode_SimpleObservation lib (JObj kvs) = Inl DecodeError"
    proof (cases "decode_SimpleObservation lib (JObj kvs)")
      case (Inl e)
      then show ?thesis using decode_SimpleObservation_error [OF Inl] by simp
    next
      case (Inr ob)
      then show ?thesis using ok [OF Inr] n by simp
    qed
  qed
qed

lemma decode_longitude_string:
  assumes "map_of kvs ''longitude'' = Some (JStr s)"
  shows "ParseFloat lib s = None \<longrightarrow> decode_SimpleObservation lib (JObj kvs) = Inl DecodeError"
    and "\<forall>ob. decode_SimpleObservation lib (JObj kvs) = Inr ob \<longrightarrow>
           ParseFloat lib s = Some (obs_Longitude ob)"
proof -
  have ok: "ParseFloat lib s = Some (obs_Longitude ob)"
    if "decode_SimpleObservation lib (JObj kvs) = Inr ob" for ob
    using decode_SimpleObservation_longitude [OF that] member_of_Some [OF assms]
    by (simp add: decodeFloatString_JStr split: option.splits)
  then show "\<forall>ob. decode_SimpleObservation lib (JObj kvs) = Inr ob \<longrightarrow>
      ParseFloat lib s = Some (obs_Longitude ob)"
    by blast
  show "ParseFloat lib s = None \<longrightarrow> decode_SimpleObservation lib (JObj kvs) = Inl DecodeError"
  proof
    assume n: "ParseFloat lib s = None"
    show "decode_SimpleObservation lib (JObj kvs) = Inl DecodeError"
    proof (cases "decode_SimpleObservation lib (JObj kvs)")
      case (Inl e)
      then show ?thesis using decode_SimpleObservation_error [OF Inl] by simp
    next
      case (Inr ob)
      then show ?thesis using ok [OF Inr] n by simp
    qed
  qed
qed

lemma parse_37_5: "ParseFloat text_lib ''37.5'' = Some (Finite (75 / 2))"
  unfolding text_lib_def by (simp, code_simp)

lemma parse_north: "ParseFloat text_lib ''north'' = None"
  unfolding text_lib_def by (simp, code_simp)

text \<open>
  C5. When the JSON of a summary observation carries \<^verbatim>\<open>latitude\<close> (or \<^verbatim>\<open>longitude\<close>) as a
  string: if the string is not numeric, that is the float parser rejects it, the whole
  decode fails with a DecodeError; if the decode returns an observation, its latitude
  (longitude) is the floating-point value of the string. An object that carries only such
  a numeric string decodes to the zero observation with that coordinate.
\<close>

theorem latitude_longitude_decoded_from_strings:
  "(map_of kvs ''latitude'' = Some (JStr s) \<longrightarrow>
      (ParseFloat lib s = None \<longrightarrow> decode_SimpleObservation lib (JObj kvs) = Inl DecodeError)
      \<and> (\<forall>ob. decode_SimpleObservation lib (JObj kvs) = Inr ob \<longrightarrow>
            ParseFloat lib s = Some (obs_Latitude ob)))
   \<and> (map_of kvs ''longitude'' = Some (JStr s) \<longrightarrow>
      (ParseFloat lib s = None \<longrightarrow> decode_SimpleObservation lib (JObj kvs) = Inl DecodeError)
      \<and> (\<forall>ob. decode_SimpleObservation lib (JObj kvs) = Inr ob \<longrightarrow>
            ParseFloat lib s = Some (obs_Longitude ob)))
   \<and> (ParseFloat lib s = Some f \<longrightarrow>
        decode_SimpleObservation lib (JObj [(''latitude'', JStr s)])
          = Inr ((SimpleObservation_zero lib)\<lparr>obs_Latitude := f\<rparr>)
        \<and> decode_SimpleObservation lib (JObj [(''longitude'', JStr s)])
          = Inr ((SimpleObservation_zero lib)\<lparr>obs_Longitude := f\<rparr>))"
proof (intro conjI impI)
  assume "map_of kvs ''latitude'' = Some (JStr s)"
  then show "\<forall>ob. decode_SimpleObservation lib (JObj kvs) = Inr ob \<longrightarrow>
            ParseFloat lib s = Some (obs_Latitude ob)"
    by (rule decode_latitude_string(2))
next
  assume "map_of kvs ''latitude'' = Some (JStr s)" and "ParseFloat lib s = None"
  then show "decode_SimpleObservation lib (JObj kvs) = Inl DecodeError"
    by (rule decode_latitude_string(1) [rule_format])
next
  assume "map_of kvs ''longitude'' = Some (JStr s)"
  then show "\<forall>ob. decode_SimpleObservation lib (JObj kvs) = Inr ob \<longrightarrow>
            ParseFloat lib s = Some (obs_Longitude ob)"
    by (rule decode_longitude_string(2))
next
  assume "map_of kvs ''longitude'' = Some (JStr s)" and "ParseFloat lib s = None"
  then show "decode_SimpleObservation lib (JObj kvs) = Inl DecodeError"
    by (rule decode_longitude_string(1) [rule_format])
next
  assume "ParseFloat lib s = Some f"
  then show "decode_SimpleObservation lib (JObj [(''latitude'', JStr s)])
          = Inr ((SimpleObservation_zero lib)\<lparr>obs_Latitude := f\<rparr>)"
    by (rule decode_only_latitude)
next
  assume "ParseFloat lib s = Some f"
  then show "decode_SimpleObservation lib (JObj [(''longitude'', JStr s)])
          = Inr ((SimpleObservation_zero lib)\<lparr>obs_Longitude := f\<rparr>)"
    by (rule decode_only_longitude)
qed

theorem latitude_longitude_decoded_from_strings_witness:
  "decode_SimpleObservation text_lib (JObj [(''latitude'', JStr ''37.5'')])
     = Inr ((SimpleObservation_zero text_lib)\<lparr>obs_Latitude := Finite (75 / 2)\<rparr>)
   \<and> ParseFloat text_lib ''37.5''
     = Some (obs_Latitude ((SimpleObservation_zero text_lib)\<lparr>obs_Latitude := Finite (75 / 2)\<rparr>))
   \<and> decode_SimpleObservation text_lib (JObj [(''latitude'', JStr ''north'')]) = Inl DecodeError
   \<and> decode_SimpleObservation text_lib (JObj [(''longitude'', JStr ''north'')]) = Inl DecodeError"
proof -
  have k0: "map_of [(''latitude'', JStr ''37.5'')] ''latitude'' = Some (JStr ''37.5'')"
    by simp
  have k1: "map_of [(''latitude'', JStr ''north'')] ''latitude'' = Some (JStr ''north'')"
    by simp
  have k2: "map_of [(''longitude'', JStr ''north'')] ''longitude'' = Some (JStr ''north'')"
    by simp
  note at_37_5 = latitude_longitude_decoded_from_strings
    [of "[(''latitude'', JStr ''37.5'')]" "''37.5''" text_lib "Finite (75 / 2)"]
  from at_37_5 parse_37_5
  have a: "decode_SimpleObservation text_lib (JObj [(''latitude'', JStr ''37.5'')])
     = Inr ((SimpleObservation_zero text_lib)\<lparr>obs_Latitude := Finite (75 / 2)\<rparr>)"
    by blast
  from at_37_5 k0 a
  have a': "ParseFloat text_lib ''37.5''
     = Some (obs_Latitude ((SimpleObservation_zero text_lib)\<lparr>obs_Latitude := Finite (75 / 2)\<rparr>))"
    by blast
  from latitude_longitude_decoded_from_strings
    [of "[(''latitude'', JStr ''north'')]" "''north''" text_lib] k1 parse_north
  have b: "decode_SimpleObservation text_lib (JObj [(''latitude'', JStr ''north'')])
     = Inl DecodeError"
    by blast
  from latitude_longitude_decoded_from_strings
    [of "[(''longitude'', JStr ''north'')]" "''north''" text_lib] k2 parse_north
  have c: "decode_SimpleObservation text_lib (JObj [(''longitude'', JStr ''north'')])
     = Inl DecodeError"
    by blast
  from a a' b c show ?thesis by (intro conjI)
qed

section \<open>Properties of delete and create\<close>

lemma canned_response: "httpDo (canned_client st b) req = Inr \<lparr>status = st, body = b\<rparr>"
  by (simp add: canned_client_def)

lemma execute_no_target:
  "httpDo c req = Inr resp \<Longrightarrow>
   execute c req None needsStatus =
     (if status resp \<noteq> needsStatus then Inl (UnexpectedStatusError (status resp)) else Inr None)"
  by (simp add: execute_def)

lemma Itoa_5: "Itoa 5 = ''5''"
  by code_simp

lemma delete_request_5:
  "NewRequest text_lib ''DELETE''
     (buildUrl (canned_client st b) (''/observations/'' @ Itoa (sint (5 :: int64)) @ ''.json'')) None
    = Inr \<lparr>req_method = ''DELETE'', req_url = ''https://www.inaturalist.org/observations/5.json'',
           req_body = None\<rparr>"
  by (simp add: NewRequest_def buildUrl_def canned_client_def text_lib_def Itoa_5)

text \<open>
  C6. Once the delete request is built and the transport has answered it: for every
  response status other than 201 the operation fails with an UnexpectedStatusError that
  carries the status; for status 201 it returns no error and no value. The response body
  takes no part in the result, so nothing of it is decoded: the statement holds for every
  body, also for one that is not JSON.
\<close>

theorem delete_checks_status_only:
  assumes "NewRequest lib ''DELETE''
             (buildUrl c (''/observations/'' @ Itoa (sint ident) @ ''.json'')) None = Inr req"
    and "httpDo c req = Inr resp"
  shows "DeleteObservation lib c ident =
           (if status resp = 201 then Inr () else Inl (UnexpectedStatusError (status resp)))"
  using assms by (simp add: DeleteObservation_def execute_no_target StatusCreated_def)

theorem delete_checks_status_only_witness:
  "DeleteObservation text_lib (canned_client 201 None) 5 = Inr ()
   \<and> DeleteObservation text_lib (canned_client 200 (Some JNull)) 5 = Inl (UnexpectedStatusError 200)
   \<and> DeleteObservation text_lib (canned_client 204 None) 5 = Inl (UnexpectedStatusError 204)"
proof -
  from delete_checks_status_only [OF delete_request_5 canned_response, of 201 None]
  have a: "DeleteObservation text_lib (canned_client 201 None) 5 = Inr ()"
    by simp
  from delete_checks_status_only [OF delete_request_5 canned_response, of 200 "Some JNull"]
  have b: "DeleteObservation text_lib (canned_client 200 (Some JNull)) 5
      = Inl (UnexpectedStatusError 200)"
    by simp
  from delete_checks_status_only [OF delete_request_5 canned_response, of 204 None]
  have c: "DeleteObservation text_lib (canned_client 204 None) 5 = Inl (UnexpectedStatusError 204)"
    by simp
  from a b c show ?thesis by (intro conjI)
qed

subsection \<open>The create operation after the response\<close>

lemma AddObservation_after_response:
  assumes "Marshal_AddObservationOpt lib opt = Inr bodyJson"
    and "NewRequest lib ''POST'' (buildUrl c ''/observations.json'') (Some bodyJson) = Inr req"
    and "httpDo c req = Inr resp"
  shows "AddObservation lib c opt =
     (if status resp \<noteq> 201 then Inl (UnexpectedStatusError (status resp))
      else case body resp of None \<Rightarrow> Inl DecodeError
           | Some j \<Rightarrow>
               (case decode_SimpleObservations lib j of Inl e \<Rightarrow> Inl e
                | Inr [] \<Rightarrow> Inl PanicIndexOutOfRange
                | Inr (x # xs) \<Rightarrow> Inr x))"
  using assms
  by (simp add: AddObservation_def execute_def StatusCreated_def
      split: option.split sum.split list.split)

text \<open>Status 201 and an array whose elements decode: the first element is returned.\<close>

lemma AddObservation_first_element:
  assumes "Marshal_AddObservationOpt lib opt = Inr bodyJson"
    and "NewRequest lib ''POST'' (buildUrl c ''/observations.json'') (Some bodyJson) = Inr req"
    and "httpDo c req = Inr resp" and "status resp = 201" and "body resp = Some (JArr (j # js))"
    and "decode_SimpleObservation lib j = Inr x" and "decode_elements lib js = Inr xs"
  shows "AddObservation lib c opt = Inr x"
  using assms(4-) AddObservation_after_response [OF assms(1-3)]
  by (simp add: decode_SimpleObservations_def)

text \<open>Any other status: an UnexpectedStatusError that carries it.\<close>

lemma AddObservation_unexpected_status:
  assumes "Marshal_AddObservationOpt lib opt = Inr bodyJson"
    and "NewRequest lib ''POST'' (buildUrl c ''/observations.json'') (Some bodyJson) = Inr req"
    and "httpDo c req = Inr resp" and "status resp \<noteq> 201"
  shows "AddObservation lib c opt = Inl (UnexpectedStatusError (status resp))"
  using assms(4-) AddObservation_after_response [OF assms(1-3)]
  by simp

text \<open>Status 201 and an empty array: the index expression panics.\<close>

lemma AddObservation_empty_array:
  assumes "Marshal_AddObservationOpt lib opt = Inr bodyJson"
    and "NewRequest lib ''POST'' (buildUrl c ''/observations.json'') (Some bodyJson) = Inr req"
    and "httpDo c req = Inr resp" and "status resp = 201" and "body resp = Some (JArr [])"
  shows "AddObservation lib c opt = Inl PanicIndexOutOfRange"
  using assms(4-) AddObservation_after_response [OF assms(1-3)]
  by (simp add: decode_SimpleObservations_def)

lemma post_request:
  "NewRequest text_lib ''POST'' (buildUrl (canned_client st b) ''/observations.json'') (Some bodyJson)
    = Inr \<lparr>req_method = ''POST'', req_url = ''https://www.inaturalist.org/observations.json'',
           req_body = Some bodyJson\<rparr>"
  by (simp add: NewRequest_def buildUrl_def canned_client_def text_lib_def)

lemma AddObservation_status_200:
  "AddObservation text_lib (canned_client 200 (Some (JArr [])))
     (Some (AddObservationOpt_zero text_lib)) = Inl (UnexpectedStatusError 200)"
  using AddObservation_unexpected_status [OF Marshal_Add_zero post_request canned_response,
      of 200 "Some (JArr [])"]
  by simp

lemma AddObservation_one_element:
  "AddObservation text_lib (canned_client 201 (Some (JArr [JObj [(''latitude'', JStr ''37.5'')]])))
     (Some (AddObservationOpt_zero text_lib))
   = Inr ((SimpleObservation_zero text_lib)\<lparr>obs_Latitude := Finite (75 / 2)\<rparr>)"
  by (rule AddObservation_first_element [OF Marshal_Add_zero post_request canned_response _ _
        decode_only_latitude [OF parse_37_5] decode_elements.simps(1)])
    simp_all

text \<open>
  C1. The create operation returns the first element of a non-empty response array under
  status 201 and fails with an UnexpectedStatusError under any other status, as the claim
  says. Under status 201 with an empty array the claim promises a DecodeError; the code
  indexes the empty slice and panics.
\<close>

theorem AddObservation_empty_array_panics:
  "AddObservation text_lib (canned_client 201 (Some (JArr [])))
     (Some (AddObservationOpt_zero text_lib)) = Inl PanicIndexOutOfRange"
  by (rule AddObservation_empty_array [OF Marshal_Add_zero post_request canned_response])
    simp_all

end
